theory Spec2Isabelle
  imports Complex_Main "HOL-Library.AList" "HOL-Library.Sublist"
begin

section \<open>Python values used by the trading bot\<close>

subsection \<open>Strings: \<open>str.isupper\<close> and \<open>str.upper\<close>\<close>

text \<open>
  Symbols are modelled as strings over ASCII. A character is cased when it is one of the
  52 ASCII letters. Python's \<open>str\<close> holds Unicode code points; the case tables beyond
  ASCII are not modelled, and the statements that relate \<open>isupper\<close> to \<open>upper\<close> are
  made for ASCII strings only (\<open>is_ascii\<close>).
\<close>

definition lowercase_letters :: string where
  "lowercase_letters = ''abcdefghijklmnopqrstuvwxyz''"

definition uppercase_letters :: string where
  "uppercase_letters = ''ABCDEFGHIJKLMNOPQRSTUVWXYZ''"

definition char_islower :: "char \<Rightarrow> bool" where
  "char_islower c = List.member lowercase_letters c"

definition char_isupper :: "char \<Rightarrow> bool" where
  "char_isupper c = List.member uppercase_letters c"

definition char_iscased :: "char \<Rightarrow> bool" where
  "char_iscased c = (char_islower c \<or> char_isupper c)"

definition char_upper :: "char \<Rightarrow> char" where
  "char_upper c =
     (case map_of (zip lowercase_letters uppercase_letters) c of
        Some u \<Rightarrow> u
      | None \<Rightarrow> c)"

definition is_ascii :: "string \<Rightarrow> bool" where
  "is_ascii s = list_all (\<lambda>c. \<not> digit7 c) s"

text \<open>
  \<open>s.isupper()\<close>: no character of \<open>s\<close> is lowercase and at least one is uppercase
  (so the empty string and a string without letters are not upper).
\<close>

definition py_isupper :: "string \<Rightarrow> bool" where
  "py_isupper s = (list_all (\<lambda>c. \<not> char_islower c) s \<and> list_ex char_isupper s)"

text \<open>\<open>s.upper()\<close>.\<close>

definition py_upper :: "string \<Rightarrow> string" where
  "py_upper s = map char_upper s"

subsection \<open>Floats and truth values\<close>

text \<open>
  A Python \<open>float\<close> as \<open>argparse\<close> (\<open>type=float\<close>) can deliver it: a finite value,
  an infinity or NaN. Finite values are taken as rationals, which include every finite
  binary float. Only comparison with zero and truthiness are used on these values by the
  validation and by the construction of the order parameters; both are exact here.
\<close>

datatype pyfloat = Finite rat | PosInf | NegInf | NaN

text \<open>\<open>bool(x)\<close> for a float: false exactly for zero; NaN and the infinities are true.\<close>

fun float_truthy :: "pyfloat \<Rightarrow> bool" where
  "float_truthy (Finite r) = (r \<noteq> 0)"
| "float_truthy PosInf = True"
| "float_truthy NegInf = True"
| "float_truthy NaN = True"

text \<open>\<open>x <= 0\<close> for a float: every comparison with NaN is false.\<close>

fun float_le_zero :: "pyfloat \<Rightarrow> bool" where
  "float_le_zero (Finite r) = (r \<le> 0)"
| "float_le_zero PosInf = False"
| "float_le_zero NegInf = True"
| "float_le_zero NaN = False"

text \<open>Truthiness of an \<open>Optional[float]\<close>, an \<open>Optional[int]\<close> and an \<open>Optional[str]\<close>:
  \<open>None\<close>, zero and the empty string are false.\<close>

fun opt_float_truthy :: "pyfloat option \<Rightarrow> bool" where
  "opt_float_truthy None = False"
| "opt_float_truthy (Some x) = float_truthy x"

fun opt_int_truthy :: "int option \<Rightarrow> bool" where
  "opt_int_truthy None = False"
| "opt_int_truthy (Some n) = (n \<noteq> 0)"

fun opt_str_truthy :: "string option \<Rightarrow> bool" where
  "opt_str_truthy None = False"
| "opt_str_truthy (Some s) = (s \<noteq> [])"

subsection \<open>Exceptions\<close>

text \<open>
  The exceptions the program raises or receives. \<open>QuantityRangeError mn mx\<close> stands for
  \<open>ValueError(f"Quantity must be between {min_qty} and {max_qty}")\<close>, whose text holds
  two formatted floats. A \<open>BinanceAPIException\<close> is raised by the client library; it
  carries the attributes \<open>status_code\<close> and \<open>message\<close> the program reads, and
  \<open>rendering\<close>, what the library's \<open>__str__\<close> returns for it. \<open>OtherException\<close> is
  any other exception, given by its \<open>str\<close>; so is an \<open>OverflowError\<close>.
\<close>

datatype exn =
    ValueError string
  | QuantityRangeError rat rat
  | KeyError string
  | ZeroDivisionError
  | OverflowError string
  | BinanceAPIException (status_code: int) (message: string) (rendering: string)
  | OtherException string

section \<open>Command-line arguments and their validation\<close>

text \<open>
  The \<open>argparse.Namespace\<close> that \<open>parse_args\<close> returns. \<open>--quantity\<close>, \<open>--price\<close>
  and \<open>--stop_price\<close> have \<open>type=float\<close>, \<open>--trailing_delta\<close> has \<open>type=int\<close>;
  an option that was not given is \<open>None\<close>.
\<close>

record args =
  symbol :: string
  side :: string
  type :: string
  quantity :: pyfloat
  price :: "pyfloat option"
  stop_price :: "pyfloat option"
  trailing_delta :: "int option"
  api_key :: "string option"
  api_secret :: "string option"
  testnet :: bool

definition msg_symbol :: string where
  "msg_symbol = ''Symbol must be uppercase (e.g., BTCUSDT)''"

definition msg_price :: string where
  "msg_price = ''Limit orders require --price''"

definition msg_stop_price :: string where
  "msg_stop_price = ''Stop orders require --stop_price''"

definition msg_trailing_delta :: string where
  "msg_trailing_delta = ''Trailing stop orders require --trailing_delta''"

definition msg_quantity :: string where
  "msg_quantity = ''Quantity must be positive''"

text \<open>\<open>validate_args\<close>: returns \<open>None\<close> (here \<open>Inr ()\<close>) or raises \<open>ValueError\<close>.\<close>

definition validate_args :: "'a args_scheme \<Rightarrow> exn + unit" where
  "validate_args a =
     (if \<not> py_isupper (symbol a) then Inl (ValueError msg_symbol)
      else if type a = ''LIMIT'' \<and> \<not> opt_float_truthy (price a)
        then Inl (ValueError msg_price)
      else if type a = ''STOP'' \<and> \<not> opt_float_truthy (stop_price a)
        then Inl (ValueError msg_stop_price)
      else if type a = ''TRAILING_STOP'' \<and> \<not> opt_int_truthy (trailing_delta a)
        then Inl (ValueError msg_trailing_delta)
      else if float_le_zero (quantity a) then Inl (ValueError msg_quantity)
      else Inr ())"

section \<open>Binary floating point\<close>












section \<open>Quantity rounding against the LOT_SIZE filter\<close>

text \<open>
  An entry of \<open>symbol_info['filters']\<close>, with \<open>minQty\<close>, \<open>maxQty\<close> and \<open>stepSize\<close>
  after \<open>float(...)\<close>; these three are finite floats. An entry of \<open>info['symbols']\<close>
  is the pair of its \<open>'symbol'\<close> and its \<open>'filters'\<close>.
\<close>

record lot_filter =
  filterType :: string
  minQty :: rat
  maxQty :: rat
  stepSize :: rat

type_synonym symbol_info = "string \<times> lot_filter list"





section \<open>The order parameters\<close>

text \<open>The values of the \<open>params\<close> dictionary, which keeps insertion order.\<close>

datatype pyvalue = VStr string | VFloat pyfloat | VInt int | VNone

type_synonym params = "(string \<times> pyvalue) list"

definition type_map :: "(string \<times> string) list" where
  "type_map =
     [(''MARKET'', ''MARKET''),
      (''LIMIT'', ''LIMIT''),
      (''STOP'', ''STOP_MARKET''),
      (''TRAILING_STOP'', ''TRAILING_STOP_MARKET'')]"

text \<open>\<open>d.get(k, default)\<close>.\<close>

definition dict_get :: "('k \<times> 'v) list \<Rightarrow> 'k \<Rightarrow> 'v \<Rightarrow> 'v" where
  "dict_get d k dflt = (case map_of d k of Some v \<Rightarrow> v | None \<Rightarrow> dflt)"

fun opt_float_value :: "pyfloat option \<Rightarrow> pyvalue" where
  "opt_float_value None = VNone"
| "opt_float_value (Some x) = VFloat x"

fun opt_int_value :: "int option \<Rightarrow> pyvalue" where
  "opt_int_value None = VNone"
| "opt_int_value (Some n) = VInt n"

text \<open>
  The dictionary \<open>place_order\<close> builds before the call; \<open>now\<close> is
  \<open>int(time.time() * 1000)\<close>. \<open>AList.update\<close> is \<open>params[k] = v\<close>.
\<close>

definition order_params ::
  "int \<Rightarrow> string \<Rightarrow> string \<Rightarrow> string \<Rightarrow> pyfloat \<Rightarrow> pyfloat option \<Rightarrow> pyfloat option
     \<Rightarrow> int option \<Rightarrow> params" where
  "order_params now symb sd order_type qty pr stop_pr delta =
     (let p0 = [(''symbol'', VStr (py_upper symb)),
                (''side'', VStr sd),
                (''type'', VStr (dict_get type_map order_type order_type)),
                (''quantity'', VFloat qty),
                (''timestamp'', VInt now)];
          p1 = (if opt_float_truthy pr
                then AList.update ''timeInForce'' (VStr ''GTC'')
                       (AList.update ''price'' (opt_float_value pr) p0)
                else p0);
          p2 = (if opt_float_truthy stop_pr
                then AList.update ''stopPrice'' (opt_float_value stop_pr) p1
                else p1);
          p3 = (if opt_int_truthy delta
                then AList.update ''workingType'' (VStr ''MARK_PRICE'')
                       (AList.update ''callbackRate'' (opt_int_value delta)
                          (AList.update ''activationPrice'' (opt_float_value stop_pr) p2))
                else p2)
      in p3)"

text \<open>\<open>k in params\<close>.\<close>

definition has_key :: "params \<Rightarrow> string \<Rightarrow> bool" where
  "has_key p k = (map_of p k \<noteq> None)"

section \<open>The collaborators and the run of \<open>main\<close>\<close>

text \<open>
  The exchange's response to an order is a dictionary; its values are taken as the text
  that \<open>print\<close> shows for them. A balance item is the pair of its \<open>'asset'\<close> and its
  \<open>'availableBalance'\<close> after \<open>float(...)\<close>.
\<close>

type_synonym response = "(string \<times> string) list"

text \<open>
  Everything outside the program that a run depends on: the two environment variables,
  the clock, the client library (the constructor \<open>Client(...)\<close> and the four calls on
  it, each returning or raising) and Python's \<open>repr\<close> of a float.
\<close>

record world =
  getenv_api_key :: "string option"
  getenv_api_secret :: "string option"
  time_ms :: int
  client_new :: "string \<Rightarrow> string \<Rightarrow> bool \<Rightarrow> exn + unit"
  futures_account :: "exn + unit"
  futures_account_balance :: "exn + (string \<times> rat) list"
  futures_create_order :: "params \<Rightarrow> exn + response"
  futures_exchange_info :: "exn + symbol_info list"
  float_repr :: "rat \<Rightarrow> string"

text \<open>The calls into the client library, in the order they are made.\<close>

datatype call =
    Client_New
  | Futures_Account
  | Futures_Account_Balance
  | Futures_Create_Order params
  | Futures_Exchange_Info


text \<open>\<open>_initialize_client\<close>: both handlers log and re-raise.\<close>

definition initialize_client ::
  "world \<Rightarrow> string \<Rightarrow> string \<Rightarrow> bool \<Rightarrow> call list \<times> (exn + unit)" where
  "initialize_client w k s t =
     (case client_new w k s t of
        Inl e \<Rightarrow> ([Client_New], Inl e)
      | Inr u \<Rightarrow> ([Client_New, Futures_Account], futures_account w))"

text \<open>\<open>get_balance\<close>: the first item of the asset, or \<open>0.0\<close>.\<close>

definition get_balance :: "world \<Rightarrow> string \<Rightarrow> call list \<times> (exn + rat)" where
  "get_balance w asset =
     ([Futures_Account_Balance],
      case futures_account_balance w of
        Inl e \<Rightarrow> Inl e
      | Inr items \<Rightarrow>
          Inr (case find (\<lambda>item. fst item = asset) items of
                 Some b \<Rightarrow> snd b
               | None \<Rightarrow> 0))"

text \<open>\<open>place_order\<close>: one call of \<open>futures_create_order\<close>; an exception of the call is
  logged and raised again, unchanged.\<close>

definition place_order ::
  "world \<Rightarrow> string \<Rightarrow> string \<Rightarrow> string \<Rightarrow> pyfloat \<Rightarrow> pyfloat option \<Rightarrow> pyfloat option
     \<Rightarrow> int option \<Rightarrow> call list \<times> (exn + response)" where
  "place_order w symb sd order_type qty pr stop_pr delta =
     (let p = order_params (time_ms w) symb sd order_type qty pr stop_pr delta
      in ([Futures_Create_Order p], futures_create_order w p))"

text \<open>
  What \<open>print\<close> writes to standard output, one element for each call. \<open>Balance_Line b\<close>
  is the line of the available USDT balance, formatted with \<open>:.2f\<close>; \<open>Result_Header\<close>
  is the line \<open>Order Result:\<close>; both start with a newline and a pictograph. Log records
  go to the file \<open>trading_bot.log\<close> and to standard error, and are not modelled.
\<close>

datatype printed = Balance_Line rat | Result_Header | Text_Line string

record run =
  stdout :: "printed list"
  calls :: "call list"
  exit_code :: int

text \<open>\<open>str(e)\<close>.\<close>

fun exn_str :: "world \<Rightarrow> exn \<Rightarrow> string" where
  "exn_str w (ValueError m) = m"
| "exn_str w (QuantityRangeError mn mx) =
     ''Quantity must be between '' @ float_repr w mn @ '' and '' @ float_repr w mx"
| "exn_str w (KeyError k) = CHR 0x27 # k @ [CHR 0x27]"
| "exn_str w ZeroDivisionError = ''float division by zero''"
| "exn_str w (OverflowError t) = t"
| "exn_str w (BinanceAPIException sc m r) = r"
| "exn_str w (OtherException t) = t"

definition error_prefix :: string where
  "error_prefix = CHR 0x0A # '' Error: ''"

text \<open>The handler \<open>except Exception as e\<close> of \<open>main\<close>: print, then \<open>exit(1)\<close>.\<close>

definition fail :: "world \<Rightarrow> printed list \<Rightarrow> call list \<Rightarrow> exn \<Rightarrow> run" where
  "fail w out cs e =
     \<lparr>stdout = out @ [Text_Line (error_prefix @ exn_str w e)], calls = cs, exit_code = 1\<rparr>"

definition msg_keys :: string where
  "msg_keys = ''API keys must be provided via CLI or .env file''"

text \<open>\<open>a or b\<close> on optional strings.\<close>

definition py_or :: "string option \<Rightarrow> string option \<Rightarrow> string option" where
  "py_or a b = (if opt_str_truthy a then a else b)"

definition required_fields :: "(string \<times> string) list" where
  "required_fields =
     [(''Order ID: '', ''orderId''),
      (''Symbol: '', ''symbol''),
      (''Type: '', ''type''),
      (''Side: '', ''side''),
      (''Quantity: '', ''origQty''),
      (''Status: '', ''status'')]"

text \<open>The six unconditional lines of the result: a missing key raises \<open>KeyError\<close> after
  the lines before it were printed.\<close>

fun print_required ::
  "response \<Rightarrow> (string \<times> string) list \<Rightarrow> printed list \<Rightarrow> printed list \<times> (exn + unit)" where
  "print_required resp [] out = (out, Inr ())"
| "print_required resp (lk # rest) out =
     (case map_of resp (snd lk) of
        None \<Rightarrow> (out, Inl (KeyError (snd lk)))
      | Some v \<Rightarrow> print_required resp rest (out @ [Text_Line (fst lk @ v)]))"

definition print_optional :: "response \<Rightarrow> string \<Rightarrow> string \<Rightarrow> printed list" where
  "print_optional resp label k =
     (case map_of resp k of None \<Rightarrow> [] | Some v \<Rightarrow> [Text_Line (label @ v)])"

text \<open>
  \<open>main\<close> after \<open>parse_args\<close>: validation, the credentials, the client, the balance,
  the order, the display. Every exception reaches the one handler.
\<close>

definition main :: "world \<Rightarrow> args \<Rightarrow> run" where
  "main w a =
     (case validate_args a of
        Inl e \<Rightarrow> fail w [] [] e
      | Inr u \<Rightarrow>
          (case (py_or (api_key a) (getenv_api_key w),
                 py_or (api_secret a) (getenv_api_secret w)) of
             (Some k, Some s) \<Rightarrow>
               if k = [] \<or> s = [] then fail w [] [] (ValueError msg_keys)
               else
                 (case initialize_client w k s (testnet a) of
                    (c1, Inl e) \<Rightarrow> fail w [] c1 e
                  | (c1, Inr u1) \<Rightarrow>
                      (case get_balance w ''USDT'' of
                         (c2, Inl e) \<Rightarrow> fail w [] (c1 @ c2) e
                       | (c2, Inr balance) \<Rightarrow>
                           (case place_order w (symbol a) (side a) (type a) (quantity a)
                                   (price a) (stop_price a) (trailing_delta a) of
                              (c3, Inl e) \<Rightarrow> fail w [Balance_Line balance] (c1 @ c2 @ c3) e
                            | (c3, Inr resp) \<Rightarrow>
                                (case print_required resp required_fields
                                        [Balance_Line balance, Result_Header] of
                                   (out, Inl e) \<Rightarrow> fail w out (c1 @ c2 @ c3) e
                                 | (out, Inr u2) \<Rightarrow>
                                     \<lparr>stdout = out
                                          @ print_optional resp ''Price: '' ''price''
                                          @ print_optional resp ''Stop Price: '' ''stopPrice'',
                                      calls = c1 @ c2 @ c3,
                                      exit_code = 0\<rparr>))))
           | _ \<Rightarrow> fail w [] [] (ValueError msg_keys)))"

text \<open>The parameters that \<open>main\<close> has \<open>place_order\<close> build from the arguments.\<close>

definition args_params :: "int \<Rightarrow> args \<Rightarrow> params" where
  "args_params now a =
     order_params now (symbol a) (side a) (type a) (quantity a)
       (price a) (stop_price a) (trailing_delta a)"

text \<open>The order submissions among the calls of a run.\<close>

fun submissions :: "call list \<Rightarrow> params list" where
  "submissions [] = []"
| "submissions (Futures_Create_Order p # cs) = p # submissions cs"
| "submissions (c # cs) = submissions cs"

section \<open>The validation rules as the specification numbers them\<close>

text \<open>
  The five rules of the specification, each with the test the code makes for it, and the
  error of each rule. A rule about a field of one order type does not apply to the other
  types.
\<close>

definition rule_violated :: "nat \<Rightarrow> args \<Rightarrow> bool" where
  "rule_violated i a =
     (if i = 1 then \<not> py_isupper (symbol a)
      else if i = 2 then type a = ''LIMIT'' \<and> \<not> opt_float_truthy (price a)
      else if i = 3 then type a = ''STOP'' \<and> \<not> opt_float_truthy (stop_price a)
      else if i = 4 then type a = ''TRAILING_STOP'' \<and> \<not> opt_int_truthy (trailing_delta a)
      else if i = 5 then float_le_zero (quantity a)
      else False)"

definition rule_error :: "nat \<Rightarrow> exn" where
  "rule_error i =
     ValueError
       (if i = 1 then msg_symbol
        else if i = 2 then msg_price
        else if i = 3 then msg_stop_price
        else if i = 4 then msg_trailing_delta
        else msg_quantity)"

section \<open>A scenario: the exchange rejects every order\<close>

text \<open>
  Credentials in the environment, a client that connects, a balance of 100 USDT, and an
  exchange that answers every order with status 400 and the message
  \<open>insufficient margin\<close>.
\<close>

definition rejecting_world :: world where
  "rejecting_world =
     \<lparr>getenv_api_key = Some ''key'',
      getenv_api_secret = Some ''secret'',
      time_ms = 0,
      client_new = (\<lambda>k s t. Inr ()),
      futures_account = Inr (),
      futures_account_balance = Inr [(''USDT'', 100)],
      futures_create_order =
        (\<lambda>p. Inl (BinanceAPIException 400 ''insufficient margin''
                     ''APIError(code=-2019): insufficient margin'')),
      futures_exchange_info = Inr [],
      float_repr = (\<lambda>r. [])\<rparr>"

section \<open>Facts about the Python values\<close>

lemmas char_defs = char_islower_def char_isupper_def char_iscased_def char_upper_def
  lowercase_letters_def uppercase_letters_def py_isupper_def py_upper_def is_ascii_def
lemmas msg_defs = msg_symbol_def msg_price_def msg_stop_price_def msg_trailing_delta_def
  msg_quantity_def msg_keys_def

lemma letters_disjoint: "set lowercase_letters \<inter> set uppercase_letters = {}"
  by (simp add: lowercase_letters_def uppercase_letters_def)

lemma letters_length: "length lowercase_letters = length uppercase_letters"
  by (simp add: lowercase_letters_def uppercase_letters_def)

lemma char_upper_fixed: "char_upper c = c \<longleftrightarrow> \<not> char_islower c"
proof (cases "map_of (zip lowercase_letters uppercase_letters) c")
  case None
  moreover have "fst ` set (zip lowercase_letters uppercase_letters) = set lowercase_letters"
    using letters_length by (metis map_fst_zip set_map)
  ultimately have "c \<notin> set lowercase_letters"
    by (simp add: map_of_eq_None_iff)
  with None show ?thesis by (simp add: char_upper_def char_islower_def)
next
  case (Some u)
  then have "(c, u) \<in> set (zip lowercase_letters uppercase_letters)"
    by (rule map_of_SomeD)
  then have "c \<in> set lowercase_letters" and "u \<in> set uppercase_letters"
    by (auto dest: set_zip_leftD set_zip_rightD)
  with letters_disjoint have "u \<noteq> c" by auto
  with Some \<open>c \<in> set lowercase_letters\<close> show ?thesis
    by (simp add: char_upper_def char_islower_def)
qed

lemma py_upper_fixed: "py_upper s = s \<longleftrightarrow> list_all (\<lambda>c. \<not> char_islower c) s"
  by (induction s) (simp_all add: py_upper_def char_upper_fixed)

lemma cased_without_lower:
  "list_all (\<lambda>c. \<not> char_islower c) s \<Longrightarrow> list_ex char_iscased s = list_ex char_isupper s"
  by (induction s) (simp_all add: char_iscased_def)

lemma py_isupper_iff: "py_isupper s \<longleftrightarrow> py_upper s = s \<and> list_ex char_iscased s"
  using cased_without_lower[of s] by (auto simp: py_isupper_def py_upper_fixed)

lemma msg_distinct:
  "msg_symbol \<noteq> msg_price" "msg_symbol \<noteq> msg_stop_price" "msg_symbol \<noteq> msg_trailing_delta" "msg_symbol \<noteq> msg_quantity"
  "msg_price \<noteq> msg_symbol" "msg_price \<noteq> msg_stop_price" "msg_price \<noteq> msg_trailing_delta" "msg_price \<noteq> msg_quantity"
  "msg_stop_price \<noteq> msg_symbol" "msg_stop_price \<noteq> msg_price" "msg_stop_price \<noteq> msg_trailing_delta" "msg_stop_price \<noteq> msg_quantity"
  "msg_trailing_delta \<noteq> msg_symbol" "msg_trailing_delta \<noteq> msg_price" "msg_trailing_delta \<noteq> msg_stop_price" "msg_trailing_delta \<noteq> msg_quantity"
  "msg_quantity \<noteq> msg_symbol" "msg_quantity \<noteq> msg_price" "msg_quantity \<noteq> msg_stop_price" "msg_quantity \<noteq> msg_trailing_delta"
  by (simp_all add: msg_defs)

lemma symbol_rule: "validate_args a = Inl (ValueError msg_symbol) \<longleftrightarrow> \<not> py_isupper (symbol a)"
  by (simp add: validate_args_def msg_distinct)

section \<open>Validation of the symbol\<close>

text \<open>
  C1, as stated, fails: the symbol \<open>123\<close> equals its own uppercase form, and validation
  rejects it with the invalid-symbol error, because \<open>isupper\<close> wants at least one cased
  character.
\<close>

theorem symbol_without_letters_rejected:
  "py_upper ''123'' = ''123'' \<and>
   validate_args \<lparr>symbol = ''123'', side = ''BUY'', type = ''MARKET'', quantity = Finite 1,
     price = None, stop_price = None, trailing_delta = None, api_key = None,
     api_secret = None, testnet = True\<rparr> = Inl (ValueError msg_symbol)"
  by (simp add: validate_args_def char_defs)

text \<open>
  C1, amended: for every ASCII symbol, validation does not raise the invalid-symbol error
  if and only if the symbol equals its own uppercase form and holds at least one letter;
  every other symbol is rejected with the invalid-symbol error.
\<close>

theorem symbol_accepted_iff:
  "is_ascii (symbol a) \<Longrightarrow>
   (validate_args a \<noteq> Inl (ValueError msg_symbol)) =
     (py_upper (symbol a) = symbol a \<and> list_ex char_iscased (symbol a))"
  by (simp add: symbol_rule py_isupper_iff)

text \<open>C1, amended, at the symbol \<open>BTCUSDT\<close>.\<close>

theorem symbol_accepted_iff_witness:
  "is_ascii ''BTCUSDT'' \<and>
   validate_args \<lparr>symbol = ''BTCUSDT'', side = ''BUY'', type = ''MARKET'', quantity = Finite 1,
     price = None, stop_price = None, trailing_delta = None, api_key = None,
     api_secret = None, testnet = True\<rparr> \<noteq> Inl (ValueError msg_symbol) \<and>
   py_upper ''BTCUSDT'' = ''BTCUSDT'' \<and> list_ex char_iscased ''BTCUSDT''"
  using symbol_accepted_iff [of "\<lparr>symbol = ''BTCUSDT'', side = ''BUY'', type = ''MARKET'',
     quantity = Finite 1, price = None, stop_price = None, trailing_delta = None,
     api_key = None, api_secret = None, testnet = True\<rparr>"]
  by (simp add: char_defs)

section \<open>The order of the validation rules\<close>

lemma opt_float_truthy_iff: "opt_float_truthy p \<longleftrightarrow> p \<noteq> None \<and> p \<noteq> Some (Finite 0)"
proof (cases p)
  case None
  then show ?thesis by simp
next
  case (Some x)
  then show ?thesis by (cases x) simp_all
qed

lemma opt_int_truthy_iff: "opt_int_truthy d \<longleftrightarrow> d \<noteq> None \<and> d \<noteq> Some 0"
  by (cases d) simp_all

lemma rule_error_simps:
  "rule_error (Suc 0) = ValueError msg_symbol" "rule_error 2 = ValueError msg_price"
  "rule_error 3 = ValueError msg_stop_price" "rule_error 4 = ValueError msg_trailing_delta"
  "rule_error 5 = ValueError msg_quantity"
  by (simp_all add: rule_error_def)

lemma rule_violated_simps:
  "rule_violated (Suc 0) a = (\<not> py_isupper (symbol a))"
  "rule_violated 2 a = (type a = ''LIMIT'' \<and> \<not> opt_float_truthy (price a))"
  "rule_violated 3 a = (type a = ''STOP'' \<and> \<not> opt_float_truthy (stop_price a))"
  "rule_violated 4 a = (type a = ''TRAILING_STOP'' \<and> \<not> opt_int_truthy (trailing_delta a))"
  "rule_violated 5 a = float_le_zero (quantity a)"
  by (simp_all add: rule_violated_def)

text \<open>
  C5: validation reports the error of the first rule, in the order 1 to 5, that the
  arguments violate, and succeeds when they violate none; so a symbol that is not upper
  case together with a quantity that is not positive gives the invalid-symbol error.
\<close>

theorem validate_args_first_violated_rule:
  "validate_args a =
     (case find (\<lambda>i. rule_violated i a) [1, 2, 3, 4, 5] of
        None \<Rightarrow> Inr ()
      | Some i \<Rightarrow> Inl (rule_error i)) \<and>
   (\<not> py_isupper (symbol a) \<and> float_le_zero (quantity a) \<longrightarrow>
      validate_args a = Inl (ValueError msg_symbol))"
  by (simp add: validate_args_def rule_violated_simps rule_error_simps)

text \<open>C5 at the symbol \<open>btcusdt\<close> with the quantity 0, which violates rules 1 and 5.\<close>

theorem validate_args_first_violated_rule_witness:
  "\<not> py_isupper ''btcusdt'' \<and> float_le_zero (Finite 0) \<and>
   rule_violated 1 \<lparr>symbol = ''btcusdt'', side = ''BUY'', type = ''MARKET'', quantity = Finite 0,
     price = None, stop_price = None, trailing_delta = None, api_key = None,
     api_secret = None, testnet = True\<rparr> \<and>
   rule_violated 5 \<lparr>symbol = ''btcusdt'', side = ''BUY'', type = ''MARKET'', quantity = Finite 0,
     price = None, stop_price = None, trailing_delta = None, api_key = None,
     api_secret = None, testnet = True\<rparr> \<and>
   validate_args \<lparr>symbol = ''btcusdt'', side = ''BUY'', type = ''MARKET'', quantity = Finite 0,
     price = None, stop_price = None, trailing_delta = None, api_key = None,
     api_secret = None, testnet = True\<rparr> = Inl (ValueError msg_symbol)"
  using validate_args_first_violated_rule [of "\<lparr>symbol = ''btcusdt'', side = ''BUY'',
     type = ''MARKET'', quantity = Finite 0, price = None, stop_price = None,
     trailing_delta = None, api_key = None, api_secret = None, testnet = True\<rparr>"]
  by (simp add: rule_violated_simps rule_error_simps char_defs)

section \<open>The price of a LIMIT order\<close>

text \<open>
  C4, as stated, fails: a LIMIT order with the price \<open>-1\<close>, which is not greater than
  zero, passes validation.
\<close>

theorem limit_negative_price_accepted:
  "type \<lparr>symbol = ''BTCUSDT'', side = ''BUY'', type = ''LIMIT'', quantity = Finite 1,
     price = Some (Finite (- 1)), stop_price = None, trailing_delta = None, api_key = None,
     api_secret = None, testnet = True\<rparr> = ''LIMIT'' \<and>
   validate_args \<lparr>symbol = ''BTCUSDT'', side = ''BUY'', type = ''LIMIT'', quantity = Finite 1,
     price = Some (Finite (- 1)), stop_price = None, trailing_delta = None, api_key = None,
     api_secret = None, testnet = True\<rparr> = Inr ()"
  by (simp add: validate_args_def char_defs)

lemma main_validation_error:
  "validate_args a = Inl e \<Longrightarrow>
   main w a = \<lparr>stdout = [Text_Line (error_prefix @ exn_str w e)], calls = [], exit_code = 1\<rparr>"
  by (simp add: main_def fail_def)

text \<open>
  C4, amended: for every LIMIT order whose symbol passes the first rule, validation fails
  with the missing-price error when the price is absent or zero, and then the run prints
  that error and exits with 1 without any call to the client library; when the price is
  present and not zero (negative included), the order passes this rule.
\<close>

theorem limit_price_rule:
  assumes "py_isupper (symbol a)" and "type a = ''LIMIT''"
  shows "(price a = None \<or> price a = Some (Finite 0) \<longrightarrow>
            validate_args a = Inl (ValueError msg_price) \<and>
            main w a = \<lparr>stdout = [Text_Line (error_prefix @ msg_price)], calls = [],
                         exit_code = 1\<rparr>) \<and>
         (price a \<noteq> None \<and> price a \<noteq> Some (Finite 0) \<longrightarrow>
            validate_args a \<noteq> Inl (ValueError msg_price))"
proof (cases "opt_float_truthy (price a)")
  case True
  with assms have "validate_args a \<noteq> Inl (ValueError msg_price)"
    by (simp add: validate_args_def msg_distinct)
  with True show ?thesis by (simp add: opt_float_truthy_iff)
next
  case False
  with assms have v: "validate_args a = Inl (ValueError msg_price)"
    by (simp add: validate_args_def)
  from main_validation_error [OF v, of w] v False show ?thesis
    by (simp add: opt_float_truthy_iff)
qed

text \<open>C4, amended, at a LIMIT order for 0.01 BTCUSDT without a price.\<close>

theorem limit_price_rule_witness:
  "py_isupper ''BTCUSDT'' \<and>
   validate_args \<lparr>symbol = ''BTCUSDT'', side = ''BUY'', type = ''LIMIT'',
     quantity = Finite (1 / 100), price = None, stop_price = None, trailing_delta = None,
     api_key = None, api_secret = None, testnet = True\<rparr> = Inl (ValueError msg_price) \<and>
   main rejecting_world \<lparr>symbol = ''BTCUSDT'', side = ''BUY'', type = ''LIMIT'',
     quantity = Finite (1 / 100), price = None, stop_price = None, trailing_delta = None,
     api_key = None, api_secret = None, testnet = True\<rparr> =
     \<lparr>stdout = [Text_Line (error_prefix @ msg_price)], calls = [], exit_code = 1\<rparr>"
  using limit_price_rule [of "\<lparr>symbol = ''BTCUSDT'', side = ''BUY'', type = ''LIMIT'',
     quantity = Finite (1 / 100), price = None, stop_price = None, trailing_delta = None,
     api_key = None, api_secret = None, testnet = True\<rparr>" rejecting_world]
  by (simp add: char_defs)

section \<open>Zero given for a required field\<close>

text \<open>
  C10: validation treats a field given as zero like a field that was not given. Replacing
  a price, a stop price or a trailing delta of zero by \<open>None\<close> does not change the
  result; so, once the symbol has passed the first rule, a STOP order with the stop price
  0 fails with the missing-stop-price error, a LIMIT order with the price 0 fails with
  the missing-price error, and a TRAILING_STOP order with the trailing delta 0 fails with
  the missing-trailing-delta error.
\<close>

theorem zero_counts_as_missing:
  "validate_args (a\<lparr>price := Some (Finite 0)\<rparr>) = validate_args (a\<lparr>price := None\<rparr>) \<and>
   validate_args (a\<lparr>stop_price := Some (Finite 0)\<rparr>) = validate_args (a\<lparr>stop_price := None\<rparr>) \<and>
   validate_args (a\<lparr>trailing_delta := Some 0\<rparr>) = validate_args (a\<lparr>trailing_delta := None\<rparr>) \<and>
   (py_isupper (symbol a) \<and> type a = ''STOP'' \<and> stop_price a = Some (Finite 0) \<longrightarrow>
      validate_args a = Inl (ValueError msg_stop_price)) \<and>
   (py_isupper (symbol a) \<and> type a = ''LIMIT'' \<and> price a = Some (Finite 0) \<longrightarrow>
      validate_args a = Inl (ValueError msg_price)) \<and>
   (py_isupper (symbol a) \<and> type a = ''TRAILING_STOP'' \<and> trailing_delta a = Some 0 \<longrightarrow>
      validate_args a = Inl (ValueError msg_trailing_delta))"
  by (simp add: validate_args_def)

text \<open>C10 at a STOP, a LIMIT and a TRAILING_STOP order for BTCUSDT whose field is 0.\<close>

theorem zero_counts_as_missing_witness:
  "py_isupper ''BTCUSDT'' \<and>
   validate_args \<lparr>symbol = ''BTCUSDT'', side = ''SELL'', type = ''STOP'', quantity = Finite 1,
     price = None, stop_price = Some (Finite 0), trailing_delta = None, api_key = None,
     api_secret = None, testnet = True\<rparr> = Inl (ValueError msg_stop_price) \<and>
   validate_args \<lparr>symbol = ''BTCUSDT'', side = ''SELL'', type = ''LIMIT'', quantity = Finite 1,
     price = Some (Finite 0), stop_price = None, trailing_delta = None, api_key = None,
     api_secret = None, testnet = True\<rparr> = Inl (ValueError msg_price) \<and>
   validate_args \<lparr>symbol = ''BTCUSDT'', side = ''SELL'', type = ''TRAILING_STOP'',
     quantity = Finite 1, price = None, stop_price = None, trailing_delta = Some 0,
     api_key = None, api_secret = None, testnet = True\<rparr> = Inl (ValueError msg_trailing_delta)"
proof -
  let ?stop = "\<lparr>symbol = ''BTCUSDT'', side = ''SELL'', type = ''STOP'',
    quantity = Finite 1, price = None, stop_price = Some (Finite 0), trailing_delta = None,
    api_key = None, api_secret = None, testnet = True\<rparr>"
  let ?limit = "\<lparr>symbol = ''BTCUSDT'', side = ''SELL'', type = ''LIMIT'',
    quantity = Finite 1, price = Some (Finite 0), stop_price = None, trailing_delta = None,
    api_key = None, api_secret = None, testnet = True\<rparr>"
  let ?trailing = "\<lparr>symbol = ''BTCUSDT'', side = ''SELL'', type = ''TRAILING_STOP'',
    quantity = Finite 1, price = None, stop_price = None, trailing_delta = Some 0,
    api_key = None, api_secret = None, testnet = True\<rparr>"
  have up: "py_isupper ''BTCUSDT''"
    by (simp add: char_defs)
  have "py_isupper (symbol ?stop) \<and> type ?stop = ''STOP'' \<and>
          stop_price ?stop = Some (Finite 0) \<longrightarrow>
        validate_args ?stop = Inl (ValueError msg_stop_price)"
    using zero_counts_as_missing [of ?stop] by blast
  then have s: "validate_args ?stop = Inl (ValueError msg_stop_price)"
    using up by simp
  have "py_isupper (symbol ?limit) \<and> type ?limit = ''LIMIT'' \<and>
          price ?limit = Some (Finite 0) \<longrightarrow>
        validate_args ?limit = Inl (ValueError msg_price)"
    using zero_counts_as_missing [of ?limit] by blast
  then have l: "validate_args ?limit = Inl (ValueError msg_price)"
    using up by simp
  have "py_isupper (symbol ?trailing) \<and> type ?trailing = ''TRAILING_STOP'' \<and>
          trailing_delta ?trailing = Some 0 \<longrightarrow>
        validate_args ?trailing = Inl (ValueError msg_trailing_delta)"
    using zero_counts_as_missing [of ?trailing] by blast
  then have t: "validate_args ?trailing = Inl (ValueError msg_trailing_delta)"
    using up by simp
  from up s l t show ?thesis by blast
qed

section \<open>The range of the trailing delta\<close>

text \<open>
  C8 does not hold of the code: a TRAILING_STOP order with the trailing delta 500 passes
  validation, and 500 is sent as the callback rate.
\<close>

theorem trailing_delta_500_accepted:
  "validate_args \<lparr>symbol = ''BTCUSDT'', side = ''SELL'', type = ''TRAILING_STOP'',
     quantity = Finite 1, price = None, stop_price = None, trailing_delta = Some 500,
     api_key = None, api_secret = None, testnet = True\<rparr> = Inr () \<and>
   map_of (args_params 0 \<lparr>symbol = ''BTCUSDT'', side = ''SELL'', type = ''TRAILING_STOP'',
     quantity = Finite 1, price = None, stop_price = None, trailing_delta = Some 500,
     api_key = None, api_secret = None, testnet = True\<rparr>) ''callbackRate'' = Some (VInt 500)"
  by (simp add: validate_args_def char_defs args_params_def order_params_def)

section \<open>The fields of the order parameters\<close>

lemma order_params_keys:
  "map fst (order_params now symb sd ot q pr sp d) =
     [''symbol'', ''side'', ''type'', ''quantity'', ''timestamp'']
     @ (if opt_float_truthy pr then [''price'', ''timeInForce''] else [])
     @ (if opt_float_truthy sp then [''stopPrice''] else [])
     @ (if opt_int_truthy d then [''activationPrice'', ''callbackRate'', ''workingType''] else [])"
  by (simp add: order_params_def)

lemma has_key_iff: "has_key p k \<longleftrightarrow> k \<in> set (map fst p)"
  by (simp add: has_key_def map_of_eq_None_iff)

lemma order_params_has_key:
  "has_key (order_params now symb sd ot q pr sp d) ''price'' = opt_float_truthy pr"
  "has_key (order_params now symb sd ot q pr sp d) ''timeInForce'' = opt_float_truthy pr"
  "has_key (order_params now symb sd ot q pr sp d) ''stopPrice'' = opt_float_truthy sp"
  "has_key (order_params now symb sd ot q pr sp d) ''activationPrice'' = opt_int_truthy d"
  "has_key (order_params now symb sd ot q pr sp d) ''callbackRate'' = opt_int_truthy d"
  "has_key (order_params now symb sd ot q pr sp d) ''workingType'' = opt_int_truthy d"
  unfolding has_key_iff order_params_keys by simp_all

lemma order_params_type:
  "map_of (order_params now symb sd ot q pr sp d) ''type'' = Some (VStr (dict_get type_map ot ot))"
  by (simp add: order_params_def Let_def update_conv')

text \<open>
  C6: in the parameters of the call, STOP becomes STOP_MARKET and TRAILING_STOP becomes
  TRAILING_STOP_MARKET; MARKET and LIMIT stay as they are.
\<close>

theorem type_mapping:
  "map_of (order_params now symb sd ''STOP'' q pr sp d) ''type'' = Some (VStr ''STOP_MARKET'') \<and>
   map_of (order_params now symb sd ''TRAILING_STOP'' q pr sp d) ''type'' =
     Some (VStr ''TRAILING_STOP_MARKET'') \<and>
   map_of (order_params now symb sd ''MARKET'' q pr sp d) ''type'' = Some (VStr ''MARKET'') \<and>
   map_of (order_params now symb sd ''LIMIT'' q pr sp d) ''type'' = Some (VStr ''LIMIT'')"
  by (simp add: order_params_type dict_get_def type_map_def)

text \<open>
  C3, as stated, fails: a MARKET order given with a price passes validation, and its
  parameters carry \<open>price\<close> and \<open>timeInForce\<close>.
\<close>

theorem market_order_with_price:
  "validate_args \<lparr>symbol = ''BTCUSDT'', side = ''BUY'', type = ''MARKET'', quantity = Finite 1,
     price = Some (Finite 50000), stop_price = None, trailing_delta = None, api_key = None,
     api_secret = None, testnet = True\<rparr> = Inr () \<and>
   has_key (args_params 0 \<lparr>symbol = ''BTCUSDT'', side = ''BUY'', type = ''MARKET'',
     quantity = Finite 1, price = Some (Finite 50000), stop_price = None,
     trailing_delta = None, api_key = None, api_secret = None, testnet = True\<rparr>) ''price'' \<and>
   has_key (args_params 0 \<lparr>symbol = ''BTCUSDT'', side = ''BUY'', type = ''MARKET'',
     quantity = Finite 1, price = Some (Finite 50000), stop_price = None,
     trailing_delta = None, api_key = None, api_secret = None, testnet = True\<rparr>) ''timeInForce''"
  by (simp add: validate_args_def char_defs args_params_def order_params_has_key)

lemma validated_fields:
  assumes "validate_args a = Inr ()"
  shows "type a = ''LIMIT'' \<longrightarrow> opt_float_truthy (price a)"
    and "type a = ''STOP'' \<longrightarrow> opt_float_truthy (stop_price a)"
    and "type a = ''TRAILING_STOP'' \<longrightarrow> opt_int_truthy (trailing_delta a)"
  using assms by (auto simp: validate_args_def split: if_splits)

text \<open>
  C3, amended: the optional fields follow the values that were given, whatever the order
  type. The parameters are the five fixed fields, then \<open>price\<close> and \<open>timeInForce\<close>
  when the price is given and not zero, \<open>stopPrice\<close> when the stop price is given and
  not zero, and \<open>activationPrice\<close>, \<open>callbackRate\<close> and \<open>workingType\<close> when the
  trailing delta is given and not zero. A validated request carries the fields of its own
  type; an order without a price and without a stop price, or with zero for them, carries
  neither \<open>price\<close>, \<open>timeInForce\<close> nor \<open>stopPrice\<close>.
\<close>

theorem optional_fields_follow_values:
  "map fst (args_params now a) =
     [''symbol'', ''side'', ''type'', ''quantity'', ''timestamp'']
     @ (if opt_float_truthy (price a) then [''price'', ''timeInForce''] else [])
     @ (if opt_float_truthy (stop_price a) then [''stopPrice''] else [])
     @ (if opt_int_truthy (trailing_delta a)
        then [''activationPrice'', ''callbackRate'', ''workingType''] else []) \<and>
   (validate_args a = Inr () \<longrightarrow>
      (type a = ''LIMIT'' \<longrightarrow>
         has_key (args_params now a) ''price'' \<and> has_key (args_params now a) ''timeInForce'') \<and>
      (type a = ''STOP'' \<longrightarrow> has_key (args_params now a) ''stopPrice'') \<and>
      (type a = ''TRAILING_STOP'' \<longrightarrow>
         has_key (args_params now a) ''activationPrice'' \<and>
         has_key (args_params now a) ''callbackRate'' \<and>
         has_key (args_params now a) ''workingType'')) \<and>
   ((price a = None \<or> price a = Some (Finite 0)) \<and>
    (stop_price a = None \<or> stop_price a = Some (Finite 0)) \<longrightarrow>
      \<not> has_key (args_params now a) ''price'' \<and>
      \<not> has_key (args_params now a) ''timeInForce'' \<and>
      \<not> has_key (args_params now a) ''stopPrice'')"
proof (intro conjI impI)
  show "map fst (args_params now a) =
     [''symbol'', ''side'', ''type'', ''quantity'', ''timestamp'']
     @ (if opt_float_truthy (price a) then [''price'', ''timeInForce''] else [])
     @ (if opt_float_truthy (stop_price a) then [''stopPrice''] else [])
     @ (if opt_int_truthy (trailing_delta a)
        then [''activationPrice'', ''callbackRate'', ''workingType''] else [])"
    unfolding args_params_def by (rule order_params_keys)
next
  assume "validate_args a = Inr ()" and "type a = ''LIMIT''"
  then have "opt_float_truthy (price a)" using validated_fields(1) by blast
  then show "has_key (args_params now a) ''price''"
    and "has_key (args_params now a) ''timeInForce''"
    by (simp_all add: args_params_def order_params_has_key)
next
  assume "validate_args a = Inr ()" and "type a = ''STOP''"
  then have "opt_float_truthy (stop_price a)" using validated_fields(2) by blast
  then show "has_key (args_params now a) ''stopPrice''"
    by (simp add: args_params_def order_params_has_key)
next
  assume "validate_args a = Inr ()" and "type a = ''TRAILING_STOP''"
  then have "opt_int_truthy (trailing_delta a)" using validated_fields(3) by blast
  then show "has_key (args_params now a) ''activationPrice''"
    and "has_key (args_params now a) ''callbackRate''"
    and "has_key (args_params now a) ''workingType''"
    by (simp_all add: args_params_def order_params_has_key)
next
  assume "(price a = None \<or> price a = Some (Finite 0)) \<and>
    (stop_price a = None \<or> stop_price a = Some (Finite 0))"
  then have "\<not> opt_float_truthy (price a)" and "\<not> opt_float_truthy (stop_price a)"
    by (auto simp: opt_float_truthy_iff)
  then show "\<not> has_key (args_params now a) ''price''"
    and "\<not> has_key (args_params now a) ''timeInForce''"
    and "\<not> has_key (args_params now a) ''stopPrice''"
    by (simp_all add: args_params_def order_params_has_key)
qed

text \<open>C3, amended, at a MARKET order for 0.01 BTCUSDT without optional values, and at a
  LIMIT order with the price 50000.\<close>

theorem optional_fields_follow_values_witness:
  "validate_args \<lparr>symbol = ''BTCUSDT'', side = ''BUY'', type = ''MARKET'',
     quantity = Finite (1 / 100), price = None, stop_price = None, trailing_delta = None,
     api_key = None, api_secret = None, testnet = True\<rparr> = Inr () \<and>
   map fst (args_params 0 \<lparr>symbol = ''BTCUSDT'', side = ''BUY'', type = ''MARKET'',
     quantity = Finite (1 / 100), price = None, stop_price = None, trailing_delta = None,
     api_key = None, api_secret = None, testnet = True\<rparr>) =
     [''symbol'', ''side'', ''type'', ''quantity'', ''timestamp''] \<and>
   \<not> has_key (args_params 0 \<lparr>symbol = ''BTCUSDT'', side = ''BUY'', type = ''MARKET'',
     quantity = Finite (1 / 100), price = None, stop_price = None, trailing_delta = None,
     api_key = None, api_secret = None, testnet = True\<rparr>) ''price'' \<and>
   \<not> has_key (args_params 0 \<lparr>symbol = ''BTCUSDT'', side = ''BUY'', type = ''MARKET'',
     quantity = Finite (1 / 100), price = None, stop_price = None, trailing_delta = None,
     api_key = None, api_secret = None, testnet = True\<rparr>) ''stopPrice'' \<and>
   validate_args \<lparr>symbol = ''BTCUSDT'', side = ''BUY'', type = ''LIMIT'',
     quantity = Finite (1 / 100), price = Some (Finite 50000), stop_price = None,
     trailing_delta = None, api_key = None, api_secret = None, testnet = True\<rparr> = Inr () \<and>
   has_key (args_params 0 \<lparr>symbol = ''BTCUSDT'', side = ''BUY'', type = ''LIMIT'',
     quantity = Finite (1 / 100), price = Some (Finite 50000), stop_price = None,
     trailing_delta = None, api_key = None, api_secret = None, testnet = True\<rparr>) ''price''"
proof -
  let ?market = "\<lparr>symbol = ''BTCUSDT'', side = ''BUY'', type = ''MARKET'',
     quantity = Finite (1 / 100), price = None, stop_price = None, trailing_delta = None,
     api_key = None, api_secret = None, testnet = True\<rparr>"
  let ?limit = "\<lparr>symbol = ''BTCUSDT'', side = ''BUY'', type = ''LIMIT'',
     quantity = Finite (1 / 100), price = Some (Finite 50000), stop_price = None,
     trailing_delta = None, api_key = None, api_secret = None, testnet = True\<rparr>"
  have vm: "validate_args ?market = Inr ()" and vl: "validate_args ?limit = Inr ()"
    by (simp_all add: validate_args_def char_defs)
  note m = optional_fields_follow_values [of 0 ?market]
  note l = optional_fields_follow_values [of 0 ?limit]
  from m have keys: "map fst (args_params 0 ?market) =
      [''symbol'', ''side'', ''type'', ''quantity'', ''timestamp'']"
    by simp
  from m have absent: "\<not> has_key (args_params 0 ?market) ''price''"
      "\<not> has_key (args_params 0 ?market) ''stopPrice''"
    by simp_all
  from l vl have present: "has_key (args_params 0 ?limit) ''price''"
    by simp
  from vm vl keys absent present show ?thesis by blast
qed

text \<open>
  C7, as stated, fails: an order whose price is set to 0 passes validation, and its
  parameters have no \<open>timeInForce\<close>.
\<close>

theorem zero_price_without_time_in_force:
  "validate_args \<lparr>symbol = ''BTCUSDT'', side = ''BUY'', type = ''MARKET'', quantity = Finite 1,
     price = Some (Finite 0), stop_price = None, trailing_delta = None, api_key = None,
     api_secret = None, testnet = True\<rparr> = Inr () \<and>
   map_of (args_params 0 \<lparr>symbol = ''BTCUSDT'', side = ''BUY'', type = ''MARKET'',
     quantity = Finite 1, price = Some (Finite 0), stop_price = None, trailing_delta = None,
     api_key = None, api_secret = None, testnet = True\<rparr>) ''timeInForce'' = None"
  by (simp add: validate_args_def char_defs args_params_def order_params_def)

text \<open>
  C7, amended: when the trailing delta is set to a value other than zero, the working
  type is MARK_PRICE, the activation price is the stop price of the request (\<open>None\<close>
  when there is none) and the callback rate is the trailing delta; when the price is set
  to a value other than zero, the time in force is GTC.
\<close>

theorem trailing_and_price_fields:
  "(d = Some n \<and> n \<noteq> 0 \<longrightarrow>
      map_of (order_params now symb sd ot q pr sp d) ''workingType'' = Some (VStr ''MARK_PRICE'') \<and>
      map_of (order_params now symb sd ot q pr sp d) ''activationPrice'' =
        Some (opt_float_value sp) \<and>
      map_of (order_params now symb sd ot q pr sp d) ''callbackRate'' = Some (VInt n)) \<and>
   (pr = Some x \<and> x \<noteq> Finite 0 \<longrightarrow>
      map_of (order_params now symb sd ot q pr sp d) ''timeInForce'' = Some (VStr ''GTC'') \<and>
      map_of (order_params now symb sd ot q pr sp d) ''price'' = Some (VFloat x))"
  by (auto simp: order_params_def Let_def update_conv' opt_float_truthy_iff)

text \<open>C7, amended, at a trailing stop with delta 2 and stop price 60000, and at a LIMIT
  order with the price 50000.\<close>

theorem trailing_and_price_fields_witness:
  "map_of (order_params 0 ''BTCUSDT'' ''SELL'' ''TRAILING_STOP'' (Finite 1) None
     (Some (Finite 60000)) (Some 2)) ''workingType'' = Some (VStr ''MARK_PRICE'') \<and>
   map_of (order_params 0 ''BTCUSDT'' ''SELL'' ''TRAILING_STOP'' (Finite 1) None
     (Some (Finite 60000)) (Some 2)) ''activationPrice'' = Some (VFloat (Finite 60000)) \<and>
   map_of (order_params 0 ''BTCUSDT'' ''BUY'' ''LIMIT'' (Finite 1) (Some (Finite 50000))
     None None) ''timeInForce'' = Some (VStr ''GTC'')"
  using
    trailing_and_price_fields [of "Some 2" 2 0 "''BTCUSDT''" "''SELL''" "''TRAILING_STOP''"
      "Finite 1" None "Some (Finite 60000)" "Finite 1"]
    trailing_and_price_fields [of None 0 0 "''BTCUSDT''" "''BUY''" "''LIMIT''"
      "Finite 1" "Some (Finite 50000)" None "Finite 50000"]
  by simp

section \<open>Rounding a quantity to the step size\<close>






















section \<open>The run when the exchange rejects the order\<close>

lemmas main_defs = main_def fail_def place_order_def initialize_client_def get_balance_def

lemma main_submissions:
  "submissions (calls (main w a)) = [] \<or>
   submissions (calls (main w a)) = [args_params (time_ms w) a]"
  by (auto simp: main_defs args_params_def Let_def
      split: sum.splits option.splits prod.splits if_splits)

lemma main_rejected:
  assumes "p \<in> set (submissions (calls (main w a)))"
    and "futures_create_order w p = Inl e"
  shows "\<exists>b. stdout (main w a) = [Balance_Line b, Text_Line (error_prefix @ exn_str w e)]"
    and "exit_code (main w a) = 1"
    and "submissions (calls (main w a)) = [p]"
  using assms
  by (auto simp: main_defs args_params_def Let_def
      split: sum.splits option.splits prod.splits if_splits)

lemma main_exit_code: "exit_code (main w a) = 0 \<or> exit_code (main w a) = 1"
  by (auto simp: main_defs Let_def split: sum.splits option.splits prod.splits if_splits)

lemma main_success:
  assumes "exit_code (main w a) = 0"
  shows "validate_args a = Inr ()"
    and "\<exists>resp. futures_create_order w (args_params (time_ms w) a) = Inr resp"
    and "submissions (calls (main w a)) = [args_params (time_ms w) a]"
  using assms
  by (auto simp: main_defs args_params_def Let_def
      split: sum.splits option.splits prod.splits if_splits)

text \<open>
  C9: when a run submits the order and the exchange answers with an API error, the run
  prints the balance and then the error line, which is the text of the error after the
  fixed prefix, so it holds the message whenever the text of the error does; the exit
  code is 1, and the order was submitted once. The exit code is 0 or 1, and it is 0 only
  when validation passed and the one submission returned a response.
\<close>

theorem api_rejection_printed_exit_1:
  "(p \<in> set (submissions (calls (main w a))) \<and>
    futures_create_order w p = Inl (BinanceAPIException sc m r) \<longrightarrow>
      (\<exists>b. stdout (main w a) = [Balance_Line b, Text_Line (error_prefix @ r)]) \<and>
      exit_code (main w a) = 1 \<and>
      submissions (calls (main w a)) = [p] \<and>
      (sublist m r \<longrightarrow> sublist m (error_prefix @ r))) \<and>
   (exit_code (main w a) = 0 \<longrightarrow>
      validate_args a = Inr () \<and>
      (\<exists>resp. futures_create_order w (args_params (time_ms w) a) = Inr resp) \<and>
      submissions (calls (main w a)) = [args_params (time_ms w) a]) \<and>
   (exit_code (main w a) = 0 \<or> exit_code (main w a) = 1)"
proof (intro conjI impI)
  assume h: "p \<in> set (submissions (calls (main w a))) \<and>
    futures_create_order w p = Inl (BinanceAPIException sc m r)"
  then have s: "p \<in> set (submissions (calls (main w a)))"
    and e: "futures_create_order w p = Inl (BinanceAPIException sc m r)"
    by simp_all
  from main_rejected(1) [OF s e]
  show "\<exists>b. stdout (main w a) = [Balance_Line b, Text_Line (error_prefix @ r)]"
    by simp
  from main_rejected(2) [OF s e] show "exit_code (main w a) = 1" .
  from main_rejected(3) [OF s e] show "submissions (calls (main w a)) = [p]" .
next
  assume "sublist m r"
  then show "sublist m (error_prefix @ r)"
    unfolding sublist_def by (metis append.assoc)
next
  assume z: "exit_code (main w a) = 0"
  from main_success(1) [OF z] show "validate_args a = Inr ()" .
  from main_success(2) [OF z]
  show "\<exists>resp. futures_create_order w (args_params (time_ms w) a) = Inr resp" .
  from main_success(3) [OF z]
  show "submissions (calls (main w a)) = [args_params (time_ms w) a]" .
next
  show "exit_code (main w a) = 0 \<or> exit_code (main w a) = 1"
    by (rule main_exit_code)
qed

text \<open>C9 at a MARKET order for 0.01 BTCUSDT that the exchange rejects with status 400
  and the message \<open>insufficient margin\<close>.\<close>

theorem api_rejection_printed_exit_1_witness:
  "args_params 0 \<lparr>symbol = ''BTCUSDT'', side = ''BUY'', type = ''MARKET'',
       quantity = Finite (1 / 100), price = None, stop_price = None, trailing_delta = None,
       api_key = None, api_secret = None, testnet = True\<rparr>
     \<in> set (submissions (calls (main rejecting_world \<lparr>symbol = ''BTCUSDT'', side = ''BUY'',
       type = ''MARKET'', quantity = Finite (1 / 100), price = None, stop_price = None,
       trailing_delta = None, api_key = None, api_secret = None, testnet = True\<rparr>))) \<and>
   stdout (main rejecting_world \<lparr>symbol = ''BTCUSDT'', side = ''BUY'', type = ''MARKET'',
       quantity = Finite (1 / 100), price = None, stop_price = None, trailing_delta = None,
       api_key = None, api_secret = None, testnet = True\<rparr>) =
     [Balance_Line 100,
      Text_Line (error_prefix @ ''APIError(code=-2019): insufficient margin'')] \<and>
   exit_code (main rejecting_world \<lparr>symbol = ''BTCUSDT'', side = ''BUY'', type = ''MARKET'',
       quantity = Finite (1 / 100), price = None, stop_price = None, trailing_delta = None,
       api_key = None, api_secret = None, testnet = True\<rparr>) = 1 \<and>
   sublist ''insufficient margin''
     (error_prefix @ ''APIError(code=-2019): insufficient margin'')"
proof -
  let ?a = "\<lparr>symbol = ''BTCUSDT'', side = ''BUY'', type = ''MARKET'',
       quantity = Finite (1 / 100), price = None, stop_price = None, trailing_delta = None,
       api_key = None, api_secret = None, testnet = True\<rparr>"
  let ?r = "''APIError(code=-2019): insufficient margin''"
  have v: "validate_args ?a = Inr ()"
    by (simp add: validate_args_def char_defs)
  have c: "calls (main rejecting_world ?a) =
      [Client_New, Futures_Account, Futures_Account_Balance,
       Futures_Create_Order (args_params 0 ?a)]"
    by (simp add: main_defs v rejecting_world_def py_or_def args_params_def)
  then have s: "args_params 0 ?a \<in> set (submissions (calls (main rejecting_world ?a)))"
    by simp
  have e: "futures_create_order rejecting_world (args_params 0 ?a) =
      Inl (BinanceAPIException 400 ''insufficient margin'' ?r)"
    by (simp add: rejecting_world_def)
  have "?r = ''APIError(code=-2019): '' @ ''insufficient margin'' @ []"
    by simp
  then have m: "sublist ''insufficient margin'' ?r"
    unfolding sublist_def by blast
  have o: "stdout (main rejecting_world ?a) = [Balance_Line 100, Text_Line (error_prefix @ ?r)]"
    by (simp add: main_defs v rejecting_world_def py_or_def)
  from api_rejection_printed_exit_1 [of "args_params 0 ?a" rejecting_world ?a 400
      "''insufficient margin''" ?r] s e m
  have "exit_code (main rejecting_world ?a) = 1"
    and "sublist ''insufficient margin'' (error_prefix @ ?r)"
    by blast+
  with s o show ?thesis by blast
qed

end
